theory Spec2Isabelle
  imports Main "HOL-Library.Word"
begin

unbundle bit_operations_syntax

section \<open>Constants and data of sketch.ino\<close>

type_synonym TickType_t = "32 word"

definition DEBOUNCE_TICKS :: int where "DEBOUNCE_TICKS = 4"
definition SHORT_PRESS_MAX_MS :: nat where "SHORT_PRESS_MAX_MS = 300"
definition LONG_PRESS_MIN_MS :: nat where "LONG_PRESS_MIN_MS = 1500"
definition MULTI_CLICK_TIMEOUT_MS :: nat where "MULTI_CLICK_TIMEOUT_MS = 700"
definition AUTO_CYCLE_PERIOD_MS :: nat where "AUTO_CYCLE_PERIOD_MS = 2000"
definition NUM_PATTERNS :: int where "NUM_PATTERNS = 4"
definition MENU_ITEMS_COUNT :: int where "MENU_ITEMS_COUNT = 4"
definition BRIGHTNESS_MAX :: "8 word" where "BRIGHTNESS_MAX = 10"
definition BRIGHTNESS_MIN :: "8 word" where "BRIGHTNESS_MIN = 0"

definition patterns :: "16 word list" where
  "patterns = [0xFFFF, 0xAAAA, 0x5555, 0x0F0F]"

text \<open>
  Modelled from the spec: the tick rate \<open>configTICK_RATE_HZ\<close> behind the FreeRTOS macro
  \<open>pdMS_TO_TICKS\<close> is set outside sketch.ino. The spec gives every threshold in
  milliseconds of the tick clock (5 ms polling tick, 700 ms click window), that is one
  tick per millisecond.
\<close>

definition configTICK_RATE_HZ :: nat where "configTICK_RATE_HZ = 1000"

definition pdMS_TO_TICKS :: "nat \<Rightarrow> TickType_t" where
  "pdMS_TO_TICKS ms = of_nat (ms * configTICK_RATE_HZ div 1000)"

datatype press_type_t = PRESS_SINGLE | PRESS_DOUBLE | PRESS_TRIPLE | PRESS_LONG

record button_event_t =
  button_id :: "8 word"
  type :: press_type_t
  timestamp :: TickType_t

record display_info_t =
  pattern :: "16 word"
  brightness :: "8 word"

datatype menu_state_t =
    STATE_MAIN_MENU | STATE_BRIGHTNESS | STATE_MODE_SELECT | STATE_MANUAL_MODE
  | STATE_AUTO_MODE | STATE_INFO | STATE_RESET | STATE_POWER_OFF

text \<open>
  What C leaves undefined is a fault of the model: an array index outside the array, a
  shift count outside the width of the shifted type, and the use of an event that
  \<open>xQueueReceive\<close> did not deliver.
\<close>

datatype fault = OutOfBounds int | BadShift int | ReceiveFailed

text \<open>C's \<open>%\<close> on \<open>int\<close> truncates towards zero.\<close>

definition c_rem :: "int \<Rightarrow> int \<Rightarrow> int" where
  "c_rem a b = sgn a * (\<bar>a\<bar> mod \<bar>b\<bar>)"

section \<open>MenuLogic_Thread\<close>

text \<open>
  The local variables of \<open>MenuLogic_Thread\<close>. The \<open>int\<close> variables are unbounded
  integers here; \<open>menu_inv\<close> below bounds them on every configuration the thread reaches,
  so no \<open>int\<close> operation of the thread overflows.
\<close>

record menu =
  state :: menu_state_t
  selected_item :: int
  brightness :: "8 word"
  is_auto_mode :: bool
  current_pattern_idx :: int
  info_page :: int
  temp_is_auto_mode :: bool
  temp_pattern_idx :: int

definition menu_init :: menu where
  "menu_init = \<lparr> state = STATE_MAIN_MENU, selected_item = 0, brightness = 5,
     is_auto_mode = False, current_pattern_idx = 0, info_page = 0,
     temp_is_auto_mode = False, temp_pattern_idx = 0 \<rparr>"

text \<open>\<open>1U << n\<close>: a shift of a 32-bit unsigned value.\<close>

definition shl1 :: "int \<Rightarrow> fault + 32 word" where
  "shl1 n = (if 0 \<le> n \<and> n < 32 then Inr (push_bit (nat n) 1) else Inl (BadShift n))"

definition patterns_at :: "int \<Rightarrow> fault + 16 word" where
  "patterns_at i =
     (if 0 \<le> i \<and> i < NUM_PATTERNS then Inr (patterns ! nat i) else Inl (OutOfBounds i))"

text \<open>The initial update sent before the loop.\<close>

definition initial_info :: "fault + display_info_t" where
  "initial_info =
     (case shl1 (selected_item menu_init) of
        Inl e \<Rightarrow> Inl e
      | Inr w \<Rightarrow> Inr \<lparr> pattern = ucast w, display_info_t.brightness = menu.brightness menu_init \<rparr>)"

text \<open>The second \<open>switch (state)\<close>: the pattern shown for the state just entered.\<close>

definition display_pattern :: "menu \<Rightarrow> fault + 16 word" where
  "display_pattern m =
     (case state m of
        STATE_MAIN_MENU \<Rightarrow>
          (case shl1 (selected_item m) of Inl e \<Rightarrow> Inl e | Inr w \<Rightarrow> Inr (ucast w))
      | STATE_BRIGHTNESS \<Rightarrow>
          (if brightness m = 0 then Inr 0
           else case shl1 (uint (brightness m)) of
                  Inl e \<Rightarrow> Inl e
                | Inr w \<Rightarrow> Inr (ucast (w - 1)))
      | STATE_MODE_SELECT \<Rightarrow> Inr (if temp_is_auto_mode m then 0x000C else 0x0003)
      | STATE_MANUAL_MODE \<Rightarrow> patterns_at (temp_pattern_idx m)
      | STATE_AUTO_MODE \<Rightarrow> patterns_at (current_pattern_idx m)
      | STATE_INFO \<Rightarrow> Inr (if info_page m = 0 then 0x000F else 0x00F0)
      | STATE_RESET \<Rightarrow> Inr 0xAAAA
      | STATE_POWER_OFF \<Rightarrow> Inr 0x0000)"

text \<open>
  The first \<open>switch (state)\<close>, for the seven states other than POWER_OFF: the variables
  after the event and the flag \<open>update_display\<close>.
\<close>

definition transition :: "menu \<Rightarrow> button_event_t \<Rightarrow> menu \<times> bool" where
  "transition m ev =
     (case state m of
        STATE_MAIN_MENU \<Rightarrow>
          (if button_id ev = 1 \<and> type ev = PRESS_SINGLE then
             (m\<lparr>selected_item := c_rem (selected_item m + 1) MENU_ITEMS_COUNT\<rparr>, True)
           else if button_id ev = 3 \<and> type ev = PRESS_SINGLE then
             (m\<lparr>selected_item :=
                  c_rem (selected_item m - 1 + MENU_ITEMS_COUNT) MENU_ITEMS_COUNT\<rparr>, True)
           else if button_id ev = 2 \<and> type ev = PRESS_SINGLE then
             (if selected_item m = 0 then (m\<lparr>state := STATE_BRIGHTNESS\<rparr>, True)
              else if selected_item m = 1 then
                (m\<lparr>state := STATE_MODE_SELECT, temp_is_auto_mode := is_auto_mode m\<rparr>, True)
              else if selected_item m = 2 then
                (m\<lparr>state := STATE_INFO, info_page := 0\<rparr>, True)
              else if selected_item m = 3 then (m\<lparr>state := STATE_RESET\<rparr>, True)
              else (m, True))
           else if button_id ev = 3 \<and> type ev = PRESS_LONG then
             (m\<lparr>state := STATE_POWER_OFF\<rparr>, True)
           else (m, False))
      | STATE_BRIGHTNESS \<Rightarrow>
          (if button_id ev = 2 \<and> type ev = PRESS_SINGLE then
             ((if brightness m < BRIGHTNESS_MAX then m\<lparr>brightness := brightness m + 1\<rparr>
               else m), True)
           else if button_id ev = 3 \<and> type ev = PRESS_SINGLE then
             ((if brightness m > BRIGHTNESS_MIN then m\<lparr>brightness := brightness m - 1\<rparr>
               else m), True)
           else if button_id ev = 1 \<and> type ev = PRESS_SINGLE then
             (m\<lparr>state := STATE_MAIN_MENU\<rparr>, True)
           else (m, False))
      | STATE_MODE_SELECT \<Rightarrow>
          (if button_id ev = 1 \<and> type ev = PRESS_SINGLE then
             (m\<lparr>temp_is_auto_mode := \<not> temp_is_auto_mode m\<rparr>, True)
           else if button_id ev = 2 \<and> type ev = PRESS_SINGLE then
             (if temp_is_auto_mode m then
                (m\<lparr>is_auto_mode := temp_is_auto_mode m, state := STATE_AUTO_MODE\<rparr>, True)
              else
                (m\<lparr>is_auto_mode := temp_is_auto_mode m, state := STATE_MANUAL_MODE,
                    temp_pattern_idx := current_pattern_idx m\<rparr>, True))
           else if button_id ev = 3 \<and> type ev = PRESS_SINGLE then
             (m\<lparr>state := STATE_MAIN_MENU\<rparr>, True)
           else (m, False))
      | STATE_MANUAL_MODE \<Rightarrow>
          (if button_id ev = 1 \<and> type ev = PRESS_SINGLE then
             (m\<lparr>temp_pattern_idx := c_rem (temp_pattern_idx m + 1) NUM_PATTERNS\<rparr>, True)
           else if button_id ev = 2 \<and> type ev = PRESS_SINGLE then
             (m\<lparr>current_pattern_idx := temp_pattern_idx m, state := STATE_MAIN_MENU\<rparr>, True)
           else if button_id ev = 3 \<and> type ev = PRESS_SINGLE then
             (m\<lparr>state := STATE_MAIN_MENU\<rparr>, True)
           else (m, False))
      | STATE_AUTO_MODE \<Rightarrow>
          (if button_id ev = 1 \<and> type ev = PRESS_SINGLE then
             (m\<lparr>state := STATE_MAIN_MENU\<rparr>, True)
           else (m, False))
      | STATE_INFO \<Rightarrow>
          (if button_id ev = 1 \<and> type ev = PRESS_SINGLE then
             (m\<lparr>info_page := c_rem (info_page m + 1) 2\<rparr>, True)
           else if button_id ev = 3 \<and> type ev = PRESS_SINGLE then
             (m\<lparr>state := STATE_MAIN_MENU\<rparr>, True)
           else (m, False))
      | STATE_RESET \<Rightarrow>
          (if button_id ev = 2 \<and> type ev = PRESS_DOUBLE then
             (m\<lparr>brightness := 5, is_auto_mode := False, current_pattern_idx := 0,
                 state := STATE_MAIN_MENU\<rparr>, True)
           else if button_id ev = 3 \<and> type ev = PRESS_SINGLE then
             (m\<lparr>state := STATE_MAIN_MENU\<rparr>, True)
           else (m, False))
      | STATE_POWER_OFF \<Rightarrow> (m, False))"

text \<open>
  The timeout handed to \<open>xQueueReceive\<close>, in ticks; \<open>None\<close> is \<open>portMAX_DELAY\<close>, a
  receive that waits until an event arrives.
\<close>

definition receive_timeout :: "menu_state_t \<Rightarrow> TickType_t option" where
  "receive_timeout s =
     (if s = STATE_AUTO_MODE then Some (pdMS_TO_TICKS AUTO_CYCLE_PERIOD_MS) else None)"

datatype recv = Timeout | Received button_event_t

text \<open>The branch taken when the receive in AUTO_MODE returns \<open>pdFALSE\<close>.\<close>

definition auto_advance :: "menu \<Rightarrow> fault + menu \<times> display_info_t list" where
  "auto_advance m =
     (let m' = m\<lparr>current_pattern_idx := c_rem (current_pattern_idx m + 1) NUM_PATTERNS\<rparr>
      in case patterns_at (current_pattern_idx m') of
           Inl e \<Rightarrow> Inl e
         | Inr p \<Rightarrow> Inr (m', [\<lparr> pattern = p, display_info_t.brightness = menu.brightness m' \<rparr>]))"

text \<open>
  The part of the loop body after the receive. In POWER_OFF the body ends with
  \<open>continue\<close> before the display code, whatever \<open>update_display\<close> holds.
\<close>

definition process_event :: "menu \<Rightarrow> button_event_t \<Rightarrow> fault + menu \<times> display_info_t list" where
  "process_event m ev =
     (if state m = STATE_POWER_OFF then
        (if button_id ev = 1 \<and> type ev = PRESS_LONG then
           Inr (m\<lparr>state := STATE_MAIN_MENU, selected_item := 0, brightness := 5,
                  is_auto_mode := False, current_pattern_idx := 0\<rparr>, [])
         else Inr (m, []))
      else
        (case transition m ev of
           (m', update_display) \<Rightarrow>
             if \<not> update_display then Inr (m', [])
             else case display_pattern m' of
                    Inl e \<Rightarrow> Inl e
                  | Inr p \<Rightarrow> Inr (m', [\<lparr> pattern = p, display_info_t.brightness = menu.brightness m' \<rparr>])))"

text \<open>
  One iteration of \<open>while (true)\<close>: the new variables and the updates sent to the display
  queue. Outside AUTO_MODE the receive has no deadline; the code does not test its result
  there, so a receive that failed would use an event that was never written.
\<close>

definition menu_step :: "menu \<Rightarrow> recv \<Rightarrow> fault + menu \<times> display_info_t list" where
  "menu_step m r =
     (if state m = STATE_AUTO_MODE then
        (case r of Timeout \<Rightarrow> auto_advance m | Received ev \<Rightarrow> process_event m ev)
      else
        (case r of Timeout \<Rightarrow> Inl ReceiveFailed | Received ev \<Rightarrow> process_event m ev))"

fun menu_run :: "menu \<Rightarrow> recv list \<Rightarrow> fault + menu \<times> display_info_t list" where
  "menu_run m [] = Inr (m, [])"
| "menu_run m (r # rs) =
     (case menu_step m r of
        Inl e \<Rightarrow> Inl e
      | Inr (m', out) \<Rightarrow>
          (case menu_run m' rs of Inl e \<Rightarrow> Inl e | Inr (m'', out') \<Rightarrow> Inr (m'', out @ out')))"

section \<open>ButtonInput_Thread\<close>

record button_tracker_t =
  pin :: nat
  last_state :: bool
  debounce_counter :: int
  press_start_time :: TickType_t
  last_release_time :: TickType_t
  click_counter :: int
  press_times :: "TickType_t list"

text \<open>An element of \<open>buttons[3]\<close> as the thread initialises it, for GPIO number \<open>p\<close>.\<close>

definition tracker_init :: "nat \<Rightarrow> button_tracker_t" where
  "tracker_init p = \<lparr> pin = p, last_state = False, debounce_counter = 0,
     press_start_time = 0, last_release_time = 0, click_counter = 0,
     press_times = [0, 0, 0, 0] \<rparr>"

text \<open>
  \<open>b->press_times[b->click_counter] = now\<close>: the index is a variable, and a write outside
  the four elements is a fault.
\<close>

definition press_times_store ::
  "button_tracker_t \<Rightarrow> TickType_t \<Rightarrow> fault + button_tracker_t" where
  "press_times_store b now =
     (if 0 \<le> click_counter b \<and> click_counter b < int (length (press_times b)) then
        Inr (b\<lparr>press_times := (press_times b)[nat (click_counter b) := now]\<rparr>)
      else Inl (OutOfBounds (click_counter b)))"

text \<open>The branch \<open>if (current)\<close> of an accepted transition: the button went down.\<close>

definition on_press :: "TickType_t \<Rightarrow> button_tracker_t \<Rightarrow> fault + button_tracker_t" where
  "on_press now b =
     (let b1 = b\<lparr>press_start_time := now\<rparr>;
          b2 = (if last_release_time b1 > 0 \<and>
                   now - last_release_time b1 < pdMS_TO_TICKS MULTI_CLICK_TIMEOUT_MS
                then b1\<lparr>click_counter := click_counter b1 + 1\<rparr>
                else b1\<lparr>click_counter := 1\<rparr>)
      in case press_times_store b2 now of
           Inl e \<Rightarrow> Inl e
         | Inr b3 \<Rightarrow> Inr (b3\<lparr>last_release_time := 0\<rparr>))"

text \<open>The \<open>else\<close> branch of an accepted transition: the button of index \<open>i\<close> went up.\<close>

definition on_release ::
  "nat \<Rightarrow> TickType_t \<Rightarrow> button_tracker_t \<Rightarrow> button_tracker_t \<times> button_event_t list" where
  "on_release i now b =
     (let duration = now - press_start_time b in
      if duration \<ge> pdMS_TO_TICKS LONG_PRESS_MIN_MS then
        (b\<lparr>click_counter := 0, last_release_time := 0\<rparr>,
         [\<lparr> button_id = of_nat (i + 1), type = PRESS_LONG, timestamp = now \<rparr>])
      else if duration \<le> pdMS_TO_TICKS SHORT_PRESS_MAX_MS then
        (b\<lparr>last_release_time := now\<rparr>, [])
      else (b\<lparr>click_counter := 0, last_release_time := 0\<rparr>, []))"

text \<open>The debounce of one sample \<open>current\<close> (pressed is \<open>True\<close>) and the accepted transition.\<close>

definition debounce ::
  "nat \<Rightarrow> TickType_t \<Rightarrow> bool \<Rightarrow> button_tracker_t \<Rightarrow>
     fault + button_tracker_t \<times> button_event_t list" where
  "debounce i now current b =
     (if current = last_state b then Inr (b\<lparr>debounce_counter := 0\<rparr>, [])
      else
        (let b1 = b\<lparr>debounce_counter := debounce_counter b + 1\<rparr> in
         if debounce_counter b1 \<ge> DEBOUNCE_TICKS then
           (let b2 = b1\<lparr>debounce_counter := 0, last_state := current\<rparr> in
            if current then
              (case on_press now b2 of Inl e \<Rightarrow> Inl e | Inr b3 \<Rightarrow> Inr (b3, []))
            else Inr (on_release i now b2))
         else Inr (b1, [])))"

text \<open>
  The second \<open>if\<close> of the loop body: a pending click sequence whose window has expired is
  turned into events. It reads \<open>press_times\<close> at the constant indices 1, 2 and 3 only.
\<close>

definition resolve_clicks ::
  "nat \<Rightarrow> TickType_t \<Rightarrow> button_tracker_t \<Rightarrow> button_tracker_t \<times> button_event_t list" where
  "resolve_clicks i now b =
     (if click_counter b \<ge> 1 \<and> last_release_time b > 0 \<and>
         now - last_release_time b \<ge> pdMS_TO_TICKS MULTI_CLICK_TIMEOUT_MS then
        (let count = click_counter b;
             ev = \<lparr> button_id = of_nat (i + 1), type = PRESS_SINGLE, timestamp = now \<rparr>;
             sent =
               (if count = 1 then [ev\<lparr>type := PRESS_SINGLE\<rparr>]
                else if count = 2 then
                  (let span = press_times b ! 2 - press_times b ! 1 in
                   if span < pdMS_TO_TICKS 500 then [ev\<lparr>type := PRESS_DOUBLE\<rparr>]
                   else [ev\<lparr>type := PRESS_SINGLE\<rparr>, ev\<lparr>type := PRESS_SINGLE\<rparr>])
                else if count = 3 then
                  (let span = press_times b ! 3 - press_times b ! 1 in
                   if span < pdMS_TO_TICKS 700 then [ev\<lparr>type := PRESS_TRIPLE\<rparr>]
                   else
                     (let span_first_two = press_times b ! 2 - press_times b ! 1;
                          span_last_two = press_times b ! 3 - press_times b ! 2 in
                      if span_first_two < pdMS_TO_TICKS 500 then
                        [ev\<lparr>type := PRESS_DOUBLE\<rparr>, ev\<lparr>type := PRESS_SINGLE\<rparr>]
                      else if span_last_two < pdMS_TO_TICKS 500 then
                        [ev\<lparr>type := PRESS_SINGLE\<rparr>, ev\<lparr>type := PRESS_DOUBLE\<rparr>]
                      else
                        [ev\<lparr>type := PRESS_SINGLE\<rparr>, ev\<lparr>type := PRESS_SINGLE\<rparr>,
                         ev\<lparr>type := PRESS_SINGLE\<rparr>]))
                else [])
         in (b\<lparr>click_counter := 0, last_release_time := 0\<rparr>, sent))
      else (b, []))"

text \<open>
  The body of \<open>for (int i = 0; i < 3; i++)\<close> for one button: the tracker after the sample
  and the events handed to \<open>xQueueSend\<close>, in order.
\<close>

definition button_tick ::
  "nat \<Rightarrow> TickType_t \<Rightarrow> bool \<Rightarrow> button_tracker_t \<Rightarrow>
     fault + button_tracker_t \<times> button_event_t list" where
  "button_tick i now current b =
     (case debounce i now current b of
        Inl e \<Rightarrow> Inl e
      | Inr (b1, sent1) \<Rightarrow>
          (case resolve_clicks i now b1 of (b2, sent2) \<Rightarrow> Inr (b2, sent1 @ sent2)))"

text \<open>
  The polling loop seen from one button: one pair (tick count, sample) per iteration of
  \<open>while (true)\<close>.
\<close>

fun button_run ::
  "nat \<Rightarrow> button_tracker_t \<Rightarrow> (TickType_t \<times> bool) list \<Rightarrow>
     fault + button_tracker_t \<times> button_event_t list" where
  "button_run i b [] = Inr (b, [])"
| "button_run i b ((now, current) # rest) =
     (case button_tick i now current b of
        Inl e \<Rightarrow> Inl e
      | Inr (b1, sent1) \<Rightarrow>
          (case button_run i b1 rest of
             Inl e \<Rightarrow> Inl e
           | Inr (b2, sent2) \<Rightarrow> Inr (b2, sent1 @ sent2)))"

text \<open>The number of physical presses a classified event stands for.\<close>

fun multiplicity :: "press_type_t \<Rightarrow> nat" where
  "multiplicity PRESS_SINGLE = 1"
| "multiplicity PRESS_DOUBLE = 2"
| "multiplicity PRESS_TRIPLE = 3"
| "multiplicity PRESS_LONG = 1"

definition presses_of :: "button_event_t list \<Rightarrow> nat" where
  "presses_of evs = sum_list (map (\<lambda>e. multiplicity (type e)) evs)"

section \<open>DisplayManager_Thread\<close>

datatype hw_write = ShiftOut "16 word" | SetDuty "32 word"

text \<open>
  \<open>max_duty * (10 - info.brightness) / 10\<close>: the subtraction is done in \<open>int\<close> and its
  result converted to \<open>uint32_t\<close> for the product.
\<close>

definition duty_of :: "8 word \<Rightarrow> 32 word" where
  "duty_of b =
     (let max_duty = push_bit 10 1 - 1 :: 32 word
      in max_duty * word_of_int (10 - uint b) div 10)"

text \<open>
  One received update: the local \<open>current_brightness\<close> afterwards and the writes to the
  shift register and to the LEDC channel, in order. \<open>ShiftOut\<close> is the call of
  \<open>shift_out_pattern\<close>, \<open>SetDuty\<close> is \<open>ledc_set_duty\<close> followed by \<open>ledc_update_duty\<close>.
\<close>

definition display_apply :: "int \<Rightarrow> display_info_t \<Rightarrow> int \<times> hw_write list" where
  "display_apply current_brightness info =
     (if uint (display_info_t.brightness info) \<noteq> current_brightness then
        (uint (display_info_t.brightness info),
         [ShiftOut (pattern info), SetDuty (duty_of (display_info_t.brightness info))])
      else (current_brightness, [ShiftOut (pattern info)]))"

definition display_init :: int where "display_init = - 1"

section \<open>The spec's transition table and data ranges\<close>

text \<open>
  The rows of the spec's state machine table, as (button, press type) pairs per state.
  The AUTO_MODE timeout row is not an event and has no entry.
\<close>

fun transition_table :: "menu_state_t \<Rightarrow> (8 word \<times> press_type_t) list" where
  "transition_table STATE_MAIN_MENU =
     [(1, PRESS_SINGLE), (3, PRESS_SINGLE), (2, PRESS_SINGLE), (3, PRESS_LONG)]"
| "transition_table STATE_BRIGHTNESS =
     [(2, PRESS_SINGLE), (3, PRESS_SINGLE), (1, PRESS_SINGLE)]"
| "transition_table STATE_MODE_SELECT =
     [(1, PRESS_SINGLE), (2, PRESS_SINGLE), (3, PRESS_SINGLE)]"
| "transition_table STATE_MANUAL_MODE =
     [(1, PRESS_SINGLE), (2, PRESS_SINGLE), (3, PRESS_SINGLE)]"
| "transition_table STATE_AUTO_MODE = [(1, PRESS_SINGLE)]"
| "transition_table STATE_INFO = [(1, PRESS_SINGLE), (3, PRESS_SINGLE)]"
| "transition_table STATE_RESET = [(2, PRESS_DOUBLE), (3, PRESS_SINGLE)]"
| "transition_table STATE_POWER_OFF = [(1, PRESS_LONG)]"

text \<open>The ranges the spec's data model gives the menu context.\<close>

definition menu_inv :: "menu \<Rightarrow> bool" where
  "menu_inv m \<longleftrightarrow>
     0 \<le> selected_item m \<and> selected_item m < 4 \<and> menu.brightness m \<le> 10 \<and>
     0 \<le> current_pattern_idx m \<and> current_pattern_idx m < 4 \<and>
     0 \<le> info_page m \<and> info_page m < 2 \<and>
     0 \<le> temp_pattern_idx m \<and> temp_pattern_idx m < 4"

section \<open>Concrete configurations and sample sequences\<close>

text \<open>
  The RESET sub-menu is entered from MAIN_MENU with \<open>selected_item = 3\<close>; the other
  values were changed before.
\<close>

definition reset_entered :: menu where
  "reset_entered = \<lparr> state = STATE_RESET, selected_item = 3, brightness = 8,
     is_auto_mode = True, current_pattern_idx = 2, info_page = 0,
     temp_is_auto_mode = True, temp_pattern_idx = 0 \<rparr>"

definition brightness_at_max :: menu where
  "brightness_at_max = menu_init\<lparr>state := STATE_BRIGHTNESS, menu.brightness := 10\<rparr>"

definition auto_at_last :: menu where
  "auto_at_last = menu_init\<lparr>state := STATE_AUTO_MODE, is_auto_mode := True,
     current_pattern_idx := 3\<rparr>"

text \<open>
  Four presses of 20 ms, 20 ms apart, sampled every 5 ms: each level is held for four
  samples, so each transition is accepted at the fourth sample.
\<close>

definition four_quick_presses :: "(TickType_t \<times> bool) list" where
  "four_quick_presses =
     [(5, True), (10, True), (15, True), (20, True),
      (25, False), (30, False), (35, False), (40, False),
      (45, True), (50, True), (55, True), (60, True),
      (65, False), (70, False), (75, False), (80, False),
      (85, True), (90, True), (95, True), (100, True),
      (105, False), (110, False), (115, False), (120, False),
      (125, True), (130, True), (135, True), (140, True)]"

text \<open>The release of the fourth press, then silence until the click window is over.\<close>

definition fourth_release :: "(TickType_t \<times> bool) list" where
  "fourth_release = [(145, False), (150, False), (155, False), (160, False), (860, False)]"

text \<open>
  The tracker after the fourth press and its release, if the write to \<open>press_times[4]\<close>
  leaves the tracker's own fields as they are.
\<close>

definition after_four_presses :: button_tracker_t where
  "after_four_presses = \<lparr> pin = 21, last_state = False, debounce_counter = 0,
     press_start_time = 140, last_release_time = 160, click_counter = 4,
     press_times = [0, 20, 60, 100] \<rparr>"

text \<open>One short press, pending since its release at tick 40.\<close>

definition one_press :: "(TickType_t \<times> bool) list" where
  "one_press =
     [(5, True), (10, True), (15, True), (20, True),
      (25, False), (30, False), (35, False), (40, False)]"

definition pending_single :: button_tracker_t where
  "pending_single = \<lparr> pin = 21, last_state = False, debounce_counter = 0,
     press_start_time = 20, last_release_time = 40, click_counter = 1,
     press_times = [0, 20, 0, 0] \<rparr>"

text \<open>A second press that goes down at tick 725 and is accepted at tick 740.\<close>

definition late_press :: "(TickType_t \<times> bool) list" where
  "late_press = [(725, True), (730, True), (735, True), (740, True)]"

text \<open>A button held down since tick 100 with two clicks pending, one sample short of release.\<close>

definition held_down :: button_tracker_t where
  "held_down = \<lparr> pin = 48, last_state = True, debounce_counter = 3,
     press_start_time = 100, last_release_time = 0, click_counter = 2,
     press_times = [0, 40, 100, 0] \<rparr>"

text \<open>
  Three short presses at ticks 20, 620 and 900, each within the click window of the
  release before it, the last released at tick 920.
\<close>

definition three_pending :: button_tracker_t where
  "three_pending = \<lparr> pin = 21, last_state = False, debounce_counter = 0,
     press_start_time = 900, last_release_time = 920, click_counter = 3,
     press_times = [0, 20, 620, 900] \<rparr>"

section \<open>Arithmetic of the source\<close>

lemma pdMS_simps:
  "pdMS_TO_TICKS MULTI_CLICK_TIMEOUT_MS = 700"
  "pdMS_TO_TICKS LONG_PRESS_MIN_MS = 1500"
  "pdMS_TO_TICKS SHORT_PRESS_MAX_MS = 300"
  "pdMS_TO_TICKS AUTO_CYCLE_PERIOD_MS = 2000"
  "pdMS_TO_TICKS 500 = 500"
  "pdMS_TO_TICKS 700 = 700"
  by (simp_all add: pdMS_TO_TICKS_def configTICK_RATE_HZ_def MULTI_CLICK_TIMEOUT_MS_def
      LONG_PRESS_MIN_MS_def SHORT_PRESS_MAX_MS_def AUTO_CYCLE_PERIOD_MS_def)

lemma c_rem_nonneg: "0 \<le> a \<Longrightarrow> 0 < b \<Longrightarrow> c_rem a b = a mod b"
  by (cases "a = 0") (simp_all add: c_rem_def)

lemma inc_le10: "(b::8 word) < 10 \<Longrightarrow> b + 1 \<le> 10"
  by (simp add: inc_le)

lemma dec_le10: "0 < b \<Longrightarrow> (b::8 word) \<le> 10 \<Longrightarrow> b - 1 \<le> 10"
  by unat_arith

lemma uint_le10: "(b::8 word) \<le> 10 \<Longrightarrow> uint b < 32"
  by uint_arith

lemma uint_up:
  assumes "(b::8 word) \<le> 10"
  shows "uint (if b < 10 then b + 1 else b) = min (uint b + 1) 10"
proof (cases "b < 10")
  case True
  then have "uint b < 10" by (simp add: word_less_def)
  moreover have "uint (b + 1) = (uint b + 1) mod 256" by (simp add: uint_word_ariths)
  ultimately show ?thesis using True by simp
next
  case False
  with assms have "b = 10" by simp
  then show ?thesis by simp
qed

lemma uint_down: "uint (if 0 < b then b - 1 else (b::8 word)) = max (uint b - 1) 0"
proof (cases "0 < b")
  case True
  then have "0 < uint b" by (simp add: word_less_def)
  moreover have "uint b < 256" using uint_bounded [of b] by simp
  moreover have "uint (b - 1) = (uint b - 1) mod 256" by (simp add: uint_word_ariths)
  ultimately show ?thesis using True by simp
next
  case False
  then have "b = 0" using word_neq_0_conv by blast
  then show ?thesis by simp
qed

section \<open>The menu context stays in its ranges\<close>

lemma transition_inv:
  "menu_inv m \<Longrightarrow> transition m e = (m', u) \<Longrightarrow> menu_inv m'"
  by (cases "state m")
     (auto simp: transition_def menu_inv_def c_rem_nonneg MENU_ITEMS_COUNT_def
        NUM_PATTERNS_def BRIGHTNESS_MAX_def BRIGHTNESS_MIN_def inc_le10 dec_le10
        split: if_splits)

lemma display_pattern_ok: "menu_inv m \<Longrightarrow> \<exists>p. display_pattern m = Inr p"
  by (cases "state m")
     (auto simp: display_pattern_def menu_inv_def shl1_def patterns_at_def NUM_PATTERNS_def
        dest: uint_le10)

lemma process_event_inv:
  assumes "menu_inv m" "process_event m e = Inr (m', out)"
  shows "menu_inv m'"
proof (cases "state m = STATE_POWER_OFF")
  case True
  with assms show ?thesis
    by (auto simp: process_event_def menu_inv_def split: if_splits)
next
  case False
  obtain m1 u where t: "transition m e = (m1, u)" by (cases "transition m e")
  from assms(1) t have "menu_inv m1" by (rule transition_inv)
  moreover from assms(2) False t have "m' = m1"
    by (auto simp: process_event_def split: if_splits sum.splits)
  ultimately show ?thesis by simp
qed

lemma auto_advance_inv:
  "menu_inv m \<Longrightarrow> auto_advance m = Inr (m', out) \<Longrightarrow> menu_inv m'"
  by (auto simp: auto_advance_def menu_inv_def Let_def c_rem_nonneg NUM_PATTERNS_def
      split: sum.splits)

lemma menu_step_inv:
  "menu_inv m \<Longrightarrow> menu_step m r = Inr (m', out) \<Longrightarrow> menu_inv m'"
  by (cases r)
     (auto simp: menu_step_def dest: process_event_inv auto_advance_inv split: if_splits)

lemma menu_init_inv: "menu_inv menu_init"
  by (simp add: menu_inv_def menu_init_def)

text \<open>Every configuration the thread reaches from its initial one is in range.\<close>

lemma menu_run_inv:
  "menu_inv m \<Longrightarrow> menu_run m rs = Inr (m', out) \<Longrightarrow> menu_inv m'"
proof (induction rs arbitrary: m out)
  case Nil
  then show ?case by simp
next
  case (Cons r rs)
  from Cons.prems(2) obtain m1 o1 o2
    where s: "menu_step m r = Inr (m1, o1)" and t: "menu_run m1 rs = Inr (m', o2)"
    by (auto split: sum.splits)
  from Cons.prems(1) s have "menu_inv m1" by (rule menu_step_inv)
  then show ?case using t by (rule Cons.IH)
qed

lemma process_event_no_fault:
  assumes "menu_inv m"
  shows "\<exists>m' out. process_event m e = Inr (m', out)"
proof (cases "state m = STATE_POWER_OFF")
  case True
  then show ?thesis by (simp add: process_event_def)
next
  case False
  obtain m1 u where t: "transition m e = (m1, u)" by (cases "transition m e")
  from assms t have "menu_inv m1" by (rule transition_inv)
  then obtain p where "display_pattern m1 = Inr p" using display_pattern_ok by blast
  with False t show ?thesis by (simp add: process_event_def)
qed

text \<open>In range, an iteration has no fault: no index leaves the pattern table, no shift
  count leaves the word.\<close>

lemma menu_step_no_fault:
  assumes "menu_inv m" "r = Timeout \<longrightarrow> state m = STATE_AUTO_MODE"
  shows "\<exists>m' out. menu_step m r = Inr (m', out)"
proof (cases r)
  case Timeout
  with assms show ?thesis
    by (simp add: menu_step_def auto_advance_def Let_def patterns_at_def menu_inv_def
        c_rem_nonneg NUM_PATTERNS_def)
next
  case (Received e)
  with process_event_no_fault [OF assms(1), of e] show ?thesis
    by (simp add: menu_step_def)
qed

section \<open>Menu engine: the transitions\<close>

text \<open>
  C1. The spec has a (button 2, DOUBLE) in RESET set brightness to 5, is_auto_mode to
  false, current_pattern_index to 0 and selected_item to 0, and return to MAIN_MENU. The
  RESET branch of the code assigns the first three and the state, and has no assignment to
  \<open>selected_item\<close>: from the RESET configuration entered with \<open>selected_item = 3\<close> the
  iteration ends in MAIN_MENU with \<open>selected_item\<close> still 3, and the update it sends lights
  bit 3, not bit 0.
\<close>

theorem reset_double_keeps_selected_item:
  "menu_step reset_entered
     (Received \<lparr> button_id = 2, type = PRESS_DOUBLE, timestamp = 0 \<rparr>) =
   Inr (\<lparr> state = STATE_MAIN_MENU, selected_item = 3, brightness = 5,
          is_auto_mode = False, current_pattern_idx = 0, info_page = 0,
          temp_is_auto_mode = True, temp_pattern_idx = 0 \<rparr>,
        [\<lparr> pattern = 0x0008, brightness = 5 \<rparr>])"
  by (simp add: menu_step_def process_event_def transition_def display_pattern_def
      reset_entered_def shl1_def)

text \<open>The configuration of C1 is reached from the initial one: button 3 moves the
  selection to item 3, button 2 enters RESET.\<close>

lemma reset_reached:
  "menu_run menu_init
     [Received \<lparr> button_id = 3, type = PRESS_SINGLE, timestamp = 0 \<rparr>,
      Received \<lparr> button_id = 2, type = PRESS_SINGLE, timestamp = 0 \<rparr>,
      Received \<lparr> button_id = 2, type = PRESS_DOUBLE, timestamp = 0 \<rparr>] =
   Inr (menu_init\<lparr>selected_item := 3\<rparr>,
        [\<lparr> pattern = 0x0008, brightness = 5 \<rparr>, \<lparr> pattern = 0xAAAA, brightness = 5 \<rparr>,
         \<lparr> pattern = 0x0008, brightness = 5 \<rparr>])"
  by (simp add: menu_step_def process_event_def transition_def display_pattern_def
      menu_init_def c_rem_def MENU_ITEMS_COUNT_def shl1_def)

text \<open>
  C5. In each of the 8 states, an event whose (button, press type) pair is not a row of
  the transition table for that state leaves the state and the whole context (selected
  item, brightness, mode, pattern index, info page and both staging fields) as they were
  and sends no display update.
\<close>

theorem unlisted_event_ignored:
  "(button_id e, type e) \<notin> set (transition_table (state m)) \<Longrightarrow>
   menu_step m (Received e) = Inr (m, [])"
  by (cases "state m") (auto simp: menu_step_def process_event_def transition_def)

theorem unlisted_event_ignored_witness:
  "(button_id \<lparr> button_id = 2, type = PRESS_LONG, timestamp = 7 \<rparr>,
    type \<lparr> button_id = 2, type = PRESS_LONG, timestamp = 7 \<rparr>)
     \<notin> set (transition_table (state reset_entered)) \<and>
   menu_step reset_entered (Received \<lparr> button_id = 2, type = PRESS_LONG, timestamp = 7 \<rparr>)
     = Inr (reset_entered, [])"
  using unlisted_event_ignored
    [of "\<lparr> button_id = 2, type = PRESS_LONG, timestamp = 7 \<rparr>" reset_entered]
  by (simp add: reset_entered_def)

text \<open>
  C7. In AUTO_MODE, when the receive times out, for every current_pattern_index of the
  data model's range 0..3 the engine sets it to (current_pattern_index + 1) mod 4, sends
  exactly one display update, with the pattern table entry at the new index and the
  persistent brightness, and stays in AUTO_MODE. The receive has the 2000 ms deadline in
  AUTO_MODE and no deadline in any other state.
\<close>

theorem auto_mode_timeout_advances:
  assumes "state m = STATE_AUTO_MODE"
    and "0 \<le> current_pattern_idx m" and "current_pattern_idx m < 4"
  shows "menu_step m Timeout =
           Inr (m\<lparr>current_pattern_idx := (current_pattern_idx m + 1) mod 4\<rparr>,
                [\<lparr> pattern = patterns ! nat ((current_pattern_idx m + 1) mod 4),
                   brightness = menu.brightness m \<rparr>])
         \<and> receive_timeout (state m) = Some 2000
         \<and> (\<forall>s. s \<noteq> STATE_AUTO_MODE \<longrightarrow> receive_timeout s = None)"
  using assms
  by (simp add: menu_step_def auto_advance_def c_rem_nonneg NUM_PATTERNS_def patterns_at_def
      Let_def receive_timeout_def pdMS_simps)

theorem auto_mode_timeout_advances_witness:
  "state auto_at_last = STATE_AUTO_MODE \<and> 0 \<le> current_pattern_idx auto_at_last \<and>
   current_pattern_idx auto_at_last < 4 \<and>
   menu_step auto_at_last Timeout =
     Inr (auto_at_last\<lparr>current_pattern_idx := 0\<rparr>, [\<lparr> pattern = 0xFFFF, brightness = 5 \<rparr>]) \<and>
   STATE_MAIN_MENU \<noteq> STATE_AUTO_MODE \<and> receive_timeout STATE_MAIN_MENU = None"
  using auto_mode_timeout_advances [of auto_at_last]
  by (simp add: auto_at_last_def menu_init_def patterns_def)

section \<open>Menu engine: brightness\<close>

lemma brightness_pattern_ok:
  "state m = STATE_BRIGHTNESS \<Longrightarrow> menu.brightness m \<le> 10 \<Longrightarrow>
     \<exists>p. display_pattern m = Inr p"
  by (auto simp: display_pattern_def shl1_def dest: uint_le10)

lemma brightness_up:
  assumes "state m = STATE_BRIGHTNESS" "menu.brightness m \<le> 10"
  shows "\<exists>out. menu_step m (Received \<lparr> button_id = 2, type = PRESS_SINGLE, timestamp = t \<rparr>) =
     Inr (m\<lparr>menu.brightness := (if menu.brightness m < 10 then menu.brightness m + 1
                                 else menu.brightness m)\<rparr>, out)"
proof -
  let ?m' = "m\<lparr>menu.brightness := (if menu.brightness m < 10 then menu.brightness m + 1
                                 else menu.brightness m)\<rparr>"
  have "menu.brightness ?m' \<le> 10" using assms(2) by (simp add: inc_le10)
  moreover have "state ?m' = STATE_BRIGHTNESS" using assms(1) by simp
  ultimately obtain p where "display_pattern ?m' = Inr p"
    using brightness_pattern_ok by blast
  with assms(1) show ?thesis
    by (auto simp: menu_step_def process_event_def transition_def BRIGHTNESS_MAX_def)
qed

lemma brightness_down:
  assumes "state m = STATE_BRIGHTNESS" "menu.brightness m \<le> 10"
  shows "\<exists>out. menu_step m (Received \<lparr> button_id = 3, type = PRESS_SINGLE, timestamp = t \<rparr>) =
     Inr (m\<lparr>menu.brightness := (if 0 < menu.brightness m then menu.brightness m - 1
                                 else menu.brightness m)\<rparr>, out)"
proof -
  let ?m' = "m\<lparr>menu.brightness := (if 0 < menu.brightness m then menu.brightness m - 1
                                 else menu.brightness m)\<rparr>"
  have "menu.brightness ?m' \<le> 10" using assms(2) by (simp add: dec_le10)
  moreover have "state ?m' = STATE_BRIGHTNESS" using assms(1) by simp
  ultimately obtain p where "display_pattern ?m' = Inr p"
    using brightness_pattern_ok by blast
  with assms(1) show ?thesis
    by (auto simp: menu_step_def process_event_def transition_def BRIGHTNESS_MIN_def)
qed

lemma transition_brightness:
  "menu.brightness m \<le> 10 \<Longrightarrow> transition m e = (m', u) \<Longrightarrow> menu.brightness m' \<le> 10"
  by (cases "state m")
     (auto simp: transition_def BRIGHTNESS_MAX_def BRIGHTNESS_MIN_def inc_le10 dec_le10
        split: if_splits)

lemma menu_step_brightness:
  assumes "menu.brightness m \<le> 10" "menu_step m r = Inr (m', out)"
  shows "menu.brightness m' \<le> 10"
proof (cases r)
  case Timeout
  with assms show ?thesis
    by (auto simp: menu_step_def auto_advance_def Let_def split: if_splits sum.splits)
next
  case (Received e)
  obtain m1 u where t: "transition m e = (m1, u)" by (cases "transition m e")
  from assms(1) t have "menu.brightness m1 \<le> 10" by (rule transition_brightness)
  with assms Received t show ?thesis
    by (auto simp: menu_step_def process_event_def split: if_splits sum.splits)
qed

text \<open>
  C8. In state BRIGHTNESS, for every starting brightness in 0..10, a (button 2, SINGLE)
  event sets brightness to min(brightness + 1, 10) and a (button 3, SINGLE) event sets it
  to max(brightness - 1, 0), and changes nothing else; and after any iteration of the
  engine, in any state, a brightness in 0..10 is still in 0..10.
\<close>

theorem brightness_clamped:
  assumes "menu.brightness m \<le> 10"
  shows "(state m = STATE_BRIGHTNESS \<longrightarrow>
           (\<exists>m' out.
              menu_step m (Received \<lparr> button_id = 2, type = PRESS_SINGLE, timestamp = t \<rparr>)
                = Inr (m', out) \<and>
              uint (menu.brightness m') = min (uint (menu.brightness m) + 1) 10 \<and>
              m'\<lparr>menu.brightness := menu.brightness m\<rparr> = m) \<and>
           (\<exists>m' out.
              menu_step m (Received \<lparr> button_id = 3, type = PRESS_SINGLE, timestamp = t \<rparr>)
                = Inr (m', out) \<and>
              uint (menu.brightness m') = max (uint (menu.brightness m) - 1) 0 \<and>
              m'\<lparr>menu.brightness := menu.brightness m\<rparr> = m))
         \<and> (\<forall>r m' out. menu_step m r = Inr (m', out) \<longrightarrow> menu.brightness m' \<le> 10)"
proof -
  have up: "state m = STATE_BRIGHTNESS \<longrightarrow>
           (\<exists>m' out.
              menu_step m (Received \<lparr> button_id = 2, type = PRESS_SINGLE, timestamp = t \<rparr>)
                = Inr (m', out) \<and>
              uint (menu.brightness m') = min (uint (menu.brightness m) + 1) 10 \<and>
              m'\<lparr>menu.brightness := menu.brightness m\<rparr> = m)"
    using assms brightness_up [of m t] by (auto simp: uint_up)
  have down: "state m = STATE_BRIGHTNESS \<longrightarrow>
           (\<exists>m' out.
              menu_step m (Received \<lparr> button_id = 3, type = PRESS_SINGLE, timestamp = t \<rparr>)
                = Inr (m', out) \<and>
              uint (menu.brightness m') = max (uint (menu.brightness m) - 1) 0 \<and>
              m'\<lparr>menu.brightness := menu.brightness m\<rparr> = m)"
    using assms brightness_down [of m t] by (auto simp: uint_down)
  have "\<forall>r m' out. menu_step m r = Inr (m', out) \<longrightarrow> menu.brightness m' \<le> 10"
    using assms by (blast dest: menu_step_brightness)
  with up down show ?thesis by blast
qed

theorem brightness_clamped_witness:
  "menu.brightness brightness_at_max \<le> 10 \<and> state brightness_at_max = STATE_BRIGHTNESS \<and>
   (\<exists>m' out.
      menu_step brightness_at_max
        (Received \<lparr> button_id = 2, type = PRESS_SINGLE, timestamp = 0 \<rparr>) = Inr (m', out) \<and>
      uint (menu.brightness m') = 10) \<and>
   (\<exists>m' out.
      menu_step brightness_at_max
        (Received \<lparr> button_id = 3, type = PRESS_SINGLE, timestamp = 0 \<rparr>) = Inr (m', out) \<and>
      uint (menu.brightness m') = 9)"
proof -
  have h: "menu.brightness brightness_at_max \<le> 10"
    by (simp add: brightness_at_max_def)
  have s: "state brightness_at_max = STATE_BRIGHTNESS"
    by (simp add: brightness_at_max_def)
  have v: "uint (menu.brightness brightness_at_max) = 10"
    by (simp add: brightness_at_max_def)
  from brightness_clamped [OF h, of 0] s v show ?thesis
    using h by auto
qed

lemma replicate_6: "replicate 6 x = [x, x, x, x, x, x]"
  by (simp add: numeral_eq_Suc)

text \<open>From brightness 5, five increments reach 10 and a sixth stays there; five
  decrements reach 0 and a sixth stays there.\<close>

lemma brightness_increments_from_5:
  "menu_run (menu_init\<lparr>state := STATE_BRIGHTNESS\<rparr>)
     (replicate 6 (Received \<lparr> button_id = 2, type = PRESS_SINGLE, timestamp = 0 \<rparr>)) =
   Inr (menu_init\<lparr>state := STATE_BRIGHTNESS, menu.brightness := 10\<rparr>,
        map (\<lambda>(p, b). \<lparr> pattern = p, brightness = b \<rparr>)
          [(0x003F, 6), (0x007F, 7), (0x00FF, 8), (0x01FF, 9), (0x03FF, 10), (0x03FF, 10)])"
  by (simp add: menu_step_def process_event_def transition_def display_pattern_def
      menu_init_def shl1_def BRIGHTNESS_MAX_def replicate_6)

lemma brightness_decrements_from_5:
  "menu_run (menu_init\<lparr>state := STATE_BRIGHTNESS\<rparr>)
     (replicate 6 (Received \<lparr> button_id = 3, type = PRESS_SINGLE, timestamp = 0 \<rparr>)) =
   Inr (menu_init\<lparr>state := STATE_BRIGHTNESS, menu.brightness := 0\<rparr>,
        map (\<lambda>(p, b). \<lparr> pattern = p, brightness = b \<rparr>)
          [(0x000F, 4), (0x0007, 3), (0x0003, 2), (0x0001, 1), (0x0000, 0), (0x0000, 0)])"
  by (simp add: menu_step_def process_event_def transition_def display_pattern_def
      menu_init_def shl1_def BRIGHTNESS_MIN_def replicate_6)

section \<open>Menu engine: display patterns\<close>

lemma single_bit_not_bar:
  "ucast ((2::32 word) ^ k) \<noteq> (3::16 word)" "ucast ((2::32 word) ^ k) \<noteq> (12::16 word)"
proof -
  have b: "bit (ucast ((2::32 word) ^ k) :: 16 word) j \<longleftrightarrow> j = k \<and> k < 16" for j
    by (auto simp: bit_ucast_iff bit_exp_iff)
  show "ucast ((2::32 word) ^ k) \<noteq> (3::16 word)"
  proof
    assume e: "ucast ((2::32 word) ^ k) = (3::16 word)"
    have "bit (3::16 word) 0" "bit (3::16 word) 1" by (simp_all add: bit_simps)
    with b [of 0] b [of 1] e show False by simp
  qed
  show "ucast ((2::32 word) ^ k) \<noteq> (12::16 word)"
  proof
    assume e: "ucast ((2::32 word) ^ k) = (12::16 word)"
    have "bit (12::16 word) 2" "bit (12::16 word) 3" by (simp_all add: bit_simps)
    with b [of 2] b [of 3] e show False by simp
  qed
qed

lemma bits_of_3: "bit (3::16 word) n \<longleftrightarrow> n < 2"
proof -
  have "bit (mask 2 :: 16 word) n \<longleftrightarrow> n < 2" by (auto simp: bit_mask_iff)
  also have "(mask 2 :: 16 word) = 3" by (simp add: mask_eq_exp_minus_1)
  finally show ?thesis .
qed

lemma bits_of_12: "bit (12::16 word) n \<longleftrightarrow> 2 \<le> n \<and> n < 4"
proof -
  have "bit (push_bit 2 (mask 2) :: 16 word) n \<longleftrightarrow> 2 \<le> n \<and> n < 4"
    by (auto simp: bit_push_bit_iff bit_mask_iff)
  also have "(push_bit 2 (mask 2) :: 16 word) = 12" by (simp add: mask_eq_exp_minus_1)
  finally show ?thesis .
qed

lemma main_menu_pattern:
  "state m = STATE_MAIN_MENU \<Longrightarrow> display_pattern m = Inr p \<Longrightarrow>
     p = ucast ((2::32 word) ^ nat (selected_item m))"
  by (simp add: display_pattern_def shl1_def split: if_splits)

text \<open>
  C9. The pattern derived in MODE_SELECT is 0x0003 when the staged mode is Manual and
  0x000C when it is Auto. The two have no set bit in common, the Manual pattern has
  exactly bits 0 and 1 set, the Auto pattern exactly bits 2 and 3, and no pattern
  derived in MAIN_MENU, for any selected item, equals either of them.
\<close>

theorem mode_select_bars_disjoint:
  "display_pattern (m\<lparr>state := STATE_MODE_SELECT, temp_is_auto_mode := False\<rparr>) = Inr 0x0003 \<and>
   display_pattern (m\<lparr>state := STATE_MODE_SELECT, temp_is_auto_mode := True\<rparr>) = Inr 0x000C \<and>
   (0x0003 :: 16 word) AND 0x000C = 0 \<and>
   (\<forall>n. bit (0x0003 :: 16 word) n \<longleftrightarrow> n < 2) \<and>
   (\<forall>n. bit (0x000C :: 16 word) n \<longleftrightarrow> 2 \<le> n \<and> n < 4) \<and>
   (\<forall>m' p. state m' = STATE_MAIN_MENU \<and> display_pattern m' = Inr p \<longrightarrow>
            p \<noteq> 0x0003 \<and> p \<noteq> 0x000C)"
proof -
  have 1: "display_pattern (m\<lparr>state := STATE_MODE_SELECT, temp_is_auto_mode := False\<rparr>)
             = Inr 0x0003"
    by (simp add: display_pattern_def)
  have 2: "display_pattern (m\<lparr>state := STATE_MODE_SELECT, temp_is_auto_mode := True\<rparr>)
             = Inr 0x000C"
    by (simp add: display_pattern_def)
  have 3: "(0x0003 :: 16 word) AND 0x000C = 0" by simp
  have 4: "\<forall>m' p. state m' = STATE_MAIN_MENU \<and> display_pattern m' = Inr p \<longrightarrow>
            p \<noteq> 0x0003 \<and> p \<noteq> 0x000C"
  proof (intro allI impI)
    fix m' p
    assume "state m' = STATE_MAIN_MENU \<and> display_pattern m' = Inr p"
    then have "p = ucast ((2::32 word) ^ nat (selected_item m'))"
      by (simp add: main_menu_pattern)
    then show "p \<noteq> 0x0003 \<and> p \<noteq> 0x000C"
      using single_bit_not_bar [of "nat (selected_item m')"] by simp
  qed
  have 5: "\<forall>n. bit (0x0003 :: 16 word) n \<longleftrightarrow> n < 2" using bits_of_3 by blast
  have 6: "\<forall>n. bit (0x000C :: 16 word) n \<longleftrightarrow> 2 \<le> n \<and> n < 4" using bits_of_12 by blast
  from 1 2 3 4 5 6 show ?thesis by (intro conjI)
qed

theorem mode_select_bars_disjoint_witness:
  "state (menu_init\<lparr>selected_item := 2\<rparr>) = STATE_MAIN_MENU \<and>
   display_pattern (menu_init\<lparr>selected_item := 2\<rparr>) = Inr 0x0004 \<and>
   (0x0004 :: 16 word) \<noteq> 0x0003 \<and> (0x0004 :: 16 word) \<noteq> 0x000C \<and>
   display_pattern (menu_init\<lparr>state := STATE_MODE_SELECT, temp_is_auto_mode := False\<rparr>)
     = Inr 0x0003 \<and>
   display_pattern (menu_init\<lparr>state := STATE_MODE_SELECT, temp_is_auto_mode := True\<rparr>)
     = Inr 0x000C"
proof -
  have p: "display_pattern (menu_init\<lparr>selected_item := 2\<rparr>) = Inr 0x0004"
    by (simp add: display_pattern_def menu_init_def shl1_def)
  have s: "state (menu_init\<lparr>selected_item := 2\<rparr>) = STATE_MAIN_MENU"
    by (simp add: menu_init_def)
  from mode_select_bars_disjoint [of menu_init] p s show ?thesis by blast
qed

section \<open>Display sink\<close>

lemma duty_val:
  assumes "(b::8 word) \<le> 10"
  shows "unat (duty_of b) = 1023 * (10 - unat b) div 10"
proof -
  from assms have le: "unat b \<le> 10" by (simp add: word_le_nat_alt)
  define k where "k = 10 - unat b"
  have k: "k \<le> 10" by (simp add: k_def)
  have "int k = 10 - int (unat b)"
    using le unfolding k_def by (rule_tac of_nat_diff [where 'a=int and m=10, simplified])
  moreover have "int (unat b) = uint b" by (rule of_nat_unat)
  ultimately have "10 - uint b = int k" by (simp only:)
  then have w: "(word_of_int (10 - uint b) :: 32 word) = of_nat k" by simp
  have "1023 * k < 2 ^ LENGTH(32)" using k by simp
  then have "unat (of_nat (1023 * k) :: 32 word) = 1023 * k"
    by (rule of_nat_inverse [OF refl])
  moreover have "(of_nat (1023 * k) :: 32 word) = 1023 * of_nat k" by simp
  ultimately have m: "unat (1023 * of_nat k :: 32 word) = 1023 * k" by simp
  have "unat (1023 * of_nat k div 10 :: 32 word) =
          unat (1023 * of_nat k :: 32 word) div unat (10 :: 32 word)"
    by (rule unat_div)
  with m have "unat (1023 * of_nat k div 10 :: 32 word) = 1023 * k div 10" by simp
  moreover have "duty_of b = 1023 * of_nat k div 10"
    unfolding duty_of_def Let_def w by simp
  ultimately show ?thesis by (simp add: k_def)
qed

lemma duty_ends: "duty_of 10 = 0" "duty_of 0 = 1023"
  by (simp_all add: duty_of_def)

text \<open>
  C10. For every brightness b in 0..10 the duty written is 1023 * (10 - b) div 10, with no
  wrap-around in the 32-bit product; b = 10 gives duty 0 and b = 0 gives duty 1023. The
  duty is computed and written exactly when b differs from the brightness applied
  before; otherwise the update only shifts the pattern out.
\<close>

theorem duty_cycle_inverted:
  assumes "display_info_t.brightness info \<le> 10"
  shows "display_apply cur info =
           (if uint (display_info_t.brightness info) = cur
            then (cur, [ShiftOut (pattern info)])
            else (uint (display_info_t.brightness info),
                  [ShiftOut (pattern info),
                   SetDuty (duty_of (display_info_t.brightness info))]))
         \<and> unat (duty_of (display_info_t.brightness info)) =
             1023 * (10 - unat (display_info_t.brightness info)) div 10
         \<and> duty_of 10 = 0 \<and> duty_of 0 = 1023"
  using assms by (simp add: display_apply_def duty_val duty_ends)

theorem duty_cycle_inverted_witness:
  "display_info_t.brightness \<lparr> pattern = 0x0001, brightness = 5 \<rparr> \<le> 10 \<and>
   display_apply display_init \<lparr> pattern = 0x0001, brightness = 5 \<rparr> =
     (5, [ShiftOut 0x0001, SetDuty 511]) \<and>
   display_apply 5 \<lparr> pattern = 0x0002, brightness = 5 \<rparr> = (5, [ShiftOut 0x0002])"
proof -
  have h: "display_info_t.brightness \<lparr> pattern = 0x0001, brightness = 5 \<rparr> \<le> 10" by simp
  have h2: "display_info_t.brightness \<lparr> pattern = 0x0002, brightness = 5 \<rparr> \<le> 10" by simp
  have d: "duty_of 5 = 511" by (simp add: duty_of_def)
  from duty_cycle_inverted [OF h, of display_init] duty_cycle_inverted [OF h2, of 5] d h
  show ?thesis by (simp add: display_init_def)
qed

section \<open>Input classifier\<close>

lemmas tick_defs = button_tick_def debounce_def on_press_def on_release_def
  resolve_clicks_def press_times_store_def DEBOUNCE_TICKS_def pdMS_simps Let_def

text \<open>The array keeps its four elements.\<close>

lemma button_tick_length:
  "button_tick i now current b = Inr (b', sent) \<Longrightarrow>
     length (press_times b') = length (press_times b)"
  by (auto simp: tick_defs split: if_splits sum.splits)

text \<open>
  C6. An accepted release (the button was down, the fourth consecutive released sample)
  at least 1500 ticks after the press start sends exactly one LONG event for this button
  in that tick, whatever click_counter and last_release_time were, and leaves both at 0.
\<close>

theorem long_press_emits_long:
  assumes "last_state b" and "DEBOUNCE_TICKS \<le> debounce_counter b + 1"
    and "1500 \<le> now - press_start_time b"
  shows "button_tick i now False b =
     Inr (b\<lparr>debounce_counter := 0, last_state := False, click_counter := 0,
            last_release_time := 0\<rparr>,
          [\<lparr> button_id = of_nat (i + 1), type = PRESS_LONG, timestamp = now \<rparr>])"
  using assms by (simp add: tick_defs)

theorem long_press_emits_long_witness:
  "last_state held_down \<and> DEBOUNCE_TICKS \<le> debounce_counter held_down + 1 \<and>
   (1500 :: TickType_t) \<le> 1700 - press_start_time held_down \<and>
   button_tick 1 1700 False held_down =
     Inr (\<lparr> pin = 48, last_state = False, debounce_counter = 0,
            press_start_time = 100, last_release_time = 0, click_counter = 0,
            press_times = [0, 40, 100, 0] \<rparr>,
          [\<lparr> button_id = 2, type = PRESS_LONG, timestamp = 1700 \<rparr>])"
proof -
  have h: "last_state held_down" "DEBOUNCE_TICKS \<le> debounce_counter held_down + 1"
    "(1500 :: TickType_t) \<le> 1700 - press_start_time held_down"
    by (simp_all add: held_down_def DEBOUNCE_TICKS_def)
  from long_press_emits_long [OF h, of 1] h show ?thesis
    by (simp add: held_down_def)
qed

text \<open>
  C4. When a pending sequence with click_counter = 3 times out, the events sent are, in
  this order: TRIPLE if press 3 came less than 700 ticks after press 1; otherwise DOUBLE
  then SINGLE if press 2 came less than 500 ticks after press 1; otherwise SINGLE then
  DOUBLE if press 3 came less than 500 ticks after press 2; otherwise three SINGLEs. The
  gaps are differences of the 32-bit tick counter. The counter and the release time are
  cleared; the same holds for the whole tick when the sample equals the stable level.
\<close>

theorem triple_resolution_order:
  assumes "click_counter b = 3" and "0 < last_release_time b"
    and "700 \<le> now - last_release_time b"
  shows "resolve_clicks i now b =
     (b\<lparr>click_counter := 0, last_release_time := 0\<rparr>,
      map (\<lambda>t. \<lparr> button_id = of_nat (i + 1), type = t, timestamp = now \<rparr>)
        (if press_times b ! 3 - press_times b ! 1 < 700 then [PRESS_TRIPLE]
         else if press_times b ! 2 - press_times b ! 1 < 500
           then [PRESS_DOUBLE, PRESS_SINGLE]
         else if press_times b ! 3 - press_times b ! 2 < 500
           then [PRESS_SINGLE, PRESS_DOUBLE]
         else [PRESS_SINGLE, PRESS_SINGLE, PRESS_SINGLE]))
   \<and> button_tick i now (last_state b) b =
       Inr (b\<lparr>debounce_counter := 0, click_counter := 0, last_release_time := 0\<rparr>,
            snd (resolve_clicks i now b))"
  using assms by (simp add: tick_defs)

theorem triple_resolution_order_witness:
  "click_counter three_pending = 3 \<and> 0 < last_release_time three_pending \<and>
   (700 :: TickType_t) \<le> 1620 - last_release_time three_pending \<and>
   resolve_clicks 0 1620 three_pending =
     (three_pending\<lparr>click_counter := 0, last_release_time := 0\<rparr>,
      [\<lparr> button_id = 1, type = PRESS_SINGLE, timestamp = 1620 \<rparr>,
       \<lparr> button_id = 1, type = PRESS_DOUBLE, timestamp = 1620 \<rparr>])"
proof -
  have h: "click_counter three_pending = 3" "0 < last_release_time three_pending"
    "(700 :: TickType_t) \<le> 1620 - last_release_time three_pending"
    by (simp_all add: three_pending_def)
  from triple_resolution_order [OF h, of 0] h show ?thesis
    by (simp add: three_pending_def)
qed

text \<open>For a pending sequence of one, two or three clicks the events sent at the timeout
  stand for exactly that many presses.\<close>

lemma resolve_clicks_presses:
  assumes "1 \<le> click_counter b" "click_counter b \<le> 3" "0 < last_release_time b"
    "700 \<le> now - last_release_time b"
  shows "int (presses_of (snd (resolve_clicks i now b))) = click_counter b"
proof -
  from assms(1,2) consider "click_counter b = 1" | "click_counter b = 2" | "click_counter b = 3"
    by linarith
  then show ?thesis
    using assms(3,4)
    by cases (simp_all add: resolve_clicks_def pdMS_simps Let_def presses_of_def)
qed

text \<open>Three quick presses are counted and stored in bounds: all but the last sample of
  the four-press sequence.\<close>

lemma three_presses_in_bounds:
  "button_run 0 (tracker_init 21) (butlast four_quick_presses) =
     Inr (\<lparr> pin = 21, last_state = False, debounce_counter = 3,
            press_start_time = 100, last_release_time = 120, click_counter = 3,
            press_times = [0, 20, 60, 100] \<rparr>, [])"
  by (simp add: four_quick_presses_def tracker_init_def tick_defs)

text \<open>
  C2. The spec has every accepted press store its timestamp at index click_count, inside
  the 4-element array. The code counts a press that follows a release within the click
  window without an upper limit: at the fourth of four quick presses click_counter is 4
  and the store goes to \<open>press_times[4]\<close>, one past the last element.
\<close>

theorem fourth_press_out_of_bounds:
  "button_run 0 (tracker_init 21) four_quick_presses = Inl (OutOfBounds 4)"
  by (simp add: four_quick_presses_def tracker_init_def tick_defs)

text \<open>
  C3. The spec has the events sent after the click window stand for exactly the presses
  made, also for four presses or more. With four quick presses the classifier faults at
  the fourth press and sends nothing; and where the stray store leaves the tracker's
  fields as they are, the timeout finds click_counter = 4, for which the code has no
  branch: it sends no event and clears the counter, so all four presses are lost.
\<close>

theorem four_presses_emit_nothing:
  "button_run 0 (tracker_init 21) (four_quick_presses @ fourth_release) = Inl (OutOfBounds 4) \<and>
   resolve_clicks 0 860 after_four_presses =
     (after_four_presses\<lparr>click_counter := 0, last_release_time := 0\<rparr>, []) \<and>
   presses_of (snd (resolve_clicks 0 860 after_four_presses)) = 0"
  by (simp add: four_quick_presses_def fourth_release_def after_four_presses_def
      tracker_init_def tick_defs presses_of_def)

text \<open>
  A press can also be lost without a fourth click. One short press is pending since its
  release at tick 40. A second press goes down at tick 725 and is accepted at tick 740,
  the tick at which the window of the first expires. The press branch runs first, finds
  the window over, restarts the count at 1 and clears the release time, so the timeout
  check of the same tick finds nothing pending: the first press is never reported.
\<close>

lemma one_press_pending:
  "button_run 0 (tracker_init 21) one_press = Inr (pending_single, [])"
  by (simp add: one_press_def pending_single_def tracker_init_def tick_defs)

lemma idle_tick_keeps_pending:
  assumes "\<not> last_state b" "now - last_release_time b < 700"
  shows "button_tick i now False b = Inr (b\<lparr>debounce_counter := 0\<rparr>, [])"
proof -
  from assms(2) have "\<not> 700 \<le> now - last_release_time b" by (simp add: not_le)
  with assms(1) show ?thesis by (simp add: tick_defs)
qed

lemma late_press_discards_pending:
  "button_run 0 pending_single late_press =
     Inr (\<lparr> pin = 21, last_state = True, debounce_counter = 0,
            press_start_time = 740, last_release_time = 0, click_counter = 1,
            press_times = [0, 740, 0, 0] \<rparr>, [])"
  by (simp add: late_press_def pending_single_def tick_defs)

end
